theory Spec2Isabelle
  imports Main
begin

section \<open>Vectors\<close>

text \<open>
  A \<open>glm::vec3\<close> is three scalars. The scalar type is a parameter of the development:
  the case analysis of the program only adds, subtracts, multiplies, negates and compares
  scalars, so the definitions ask for nothing but these operations. Theorems that need
  an arithmetic law name the law in the sort of their scalar type.
\<close>

datatype 'a vec3 = vec3 'a 'a 'a

instantiation vec3 :: (minus) minus
begin

definition minus_vec3 :: "'a vec3 \<Rightarrow> 'a vec3 \<Rightarrow> 'a vec3" where
  "minus_vec3 p q =
     (case p of vec3 px py pz \<Rightarrow> case q of vec3 qx qy qz \<Rightarrow> vec3 (px - qx) (py - qy) (pz - qz))"

instance ..

end

instantiation vec3 :: (uminus) uminus
begin

definition uminus_vec3 :: "'a vec3 \<Rightarrow> 'a vec3" where
  "uminus_vec3 p = (case p of vec3 px py pz \<Rightarrow> vec3 (- px) (- py) (- pz))"

instance ..

end

text \<open>\<open>glm::dot\<close> multiplies componentwise and sums the three products from the left.\<close>

fun dot :: "'a::{plus,times} vec3 \<Rightarrow> 'a vec3 \<Rightarrow> 'a" where
  "dot (vec3 ax ay az) (vec3 bx by bz) = ax * bx + ay * by + az * bz"

text \<open>\<open>glm::cross\<close>, component by component as the library writes it.\<close>

fun cross :: "'a::{minus,times} vec3 \<Rightarrow> 'a vec3 \<Rightarrow> 'a vec3" where
  "cross (vec3 ax ay az) (vec3 bx by bz) =
     vec3 (ay * bz - by * az) (az * bx - bz * ax) (ax * by - bx * ay)"

section \<open>Bounding boxes and the support function\<close>

text \<open>\<open>struct OBB { glm::vec3 corners[8]; }\<close>: exactly eight corners, by type.\<close>

datatype 'a OBB = OBB "'a vec3" "'a vec3" "'a vec3" "'a vec3" "'a vec3" "'a vec3" "'a vec3" "'a vec3"

fun corners :: "'a OBB \<Rightarrow> 'a vec3 list" where
  "corners (OBB c0 c1 c2 c3 c4 c5 c6 c7) = [c0, c1, c2, c3, c4, c5, c6, c7]"

text \<open>
  \<open>getFarthestPointInDirection\<close>: the loop over \<open>i = 1 .. 7\<close> carries
  \<open>(maxDist, farthestPoint)\<close> and replaces both when corner \<open>i\<close> projects strictly
  farther.
\<close>

definition getFarthestPointInDirection ::
    "'a::{plus,times,ord} OBB \<Rightarrow> 'a vec3 \<Rightarrow> 'a vec3" where
  "getFarthestPointInDirection obj dir =
     snd (fold (\<lambda>i (maxDist, farthestPoint).
                  if dot (corners obj ! i) dir > maxDist
                  then (dot (corners obj ! i) dir, corners obj ! i)
                  else (maxDist, farthestPoint))
               [1..<8]
               (dot (corners obj ! 0) dir, corners obj ! 0))"

definition Support ::
    "'a::{plus,minus,uminus,times,ord} OBB \<Rightarrow> 'a OBB \<Rightarrow> 'a vec3 \<Rightarrow> 'a vec3" where
  "Support a b dir =
     (let p1 = getFarthestPointInDirection a dir;
          p2 = getFarthestPointInDirection b (- dir);
          p3 = p1 - p2
      in p3)"

section \<open>The simplex case analysis\<close>

text \<open>
  The global \<open>std::vector<glm::vec3> simplex\<close> and the reference parameter \<open>dir\<close> are
  the state; every function takes both and returns them updated next to its boolean.
  Reading \<open>back()\<close> of an empty vector or indexing past the end is undefined behaviour in
  the source and an error value here.
\<close>

datatype error = UndefinedBehaviour

type_synonym 'a outcome = "error + (bool \<times> 'a vec3 list \<times> 'a vec3)"

definition checkTetrahedron ::
    "'a::{plus,minus,times,zero,ord} vec3 \<Rightarrow> 'a vec3 \<Rightarrow> 'a vec3 \<Rightarrow> 'a vec3 \<Rightarrow>
       'a vec3 list \<Rightarrow> 'a vec3 \<Rightarrow> 'a outcome" where
  "checkTetrahedron ao ab ac abc simplex dir =
     (if length simplex < 4 then Inl UndefinedBehaviour
      else
        let ab_abc = cross ab abc in
        if dot ab_abc ao > 0 then
          let simplex = simplex[1 := simplex ! 2];
              simplex = simplex[2 := simplex ! 3];
              dir = cross (cross ab ao) ab;
              simplex = tl simplex;
              simplex = butlast simplex
          in Inr (False, simplex, dir)
        else
          let acp = cross abc ac in
          if dot acp ao > 0 then
            let simplex = simplex[2 := simplex ! 3];
                dir = cross (cross ac ao) ac;
                simplex = tl simplex;
                simplex = butlast simplex
            in Inr (False, simplex, dir)
          else
            let simplex = simplex[0 := simplex ! 1];
                simplex = simplex[1 := simplex ! 2];
                simplex = simplex[2 := simplex ! 3];
                simplex = butlast simplex;
                dir = abc
            in Inr (False, simplex, dir))"

definition ContainsOrigin ::
    "'a::{plus,minus,uminus,times,zero,ord} vec3 list \<Rightarrow> 'a vec3 \<Rightarrow> 'a outcome" where
  "ContainsOrigin simplex dir =
     (if simplex = [] then Inl UndefinedBehaviour
      else
        let a = last simplex in
        if length simplex = 3 then
          let b = simplex ! 1;
              c = simplex ! 0;
              ab = b - a;
              ac = c - a;
              abc = cross ab ac;
              ab_abc = cross ab abc
          in
          if dot ab_abc (- a) > 0 then
            let simplex = simplex[0 := simplex ! 1];
                simplex = simplex[1 := simplex ! 2];
                dir = cross (cross ab (- a)) ab;
                simplex = butlast simplex
            in Inr (False, simplex, dir)
          else
            let abc_ac = cross abc ac in
            if dot abc_ac (- a) > 0 then
              let simplex = simplex[1 := simplex ! 2];
                  dir = cross (cross ac (- a)) ac;
                  simplex = butlast simplex
              in Inr (False, simplex, dir)
            else if dot abc (- a) > 0 then
              Inr (False, simplex, abc)
            else
              let temp = simplex ! 1;
                  simplex = simplex[1 := simplex ! 0];
                  simplex = simplex[0 := temp]
              in Inr (False, simplex, - abc)
        else if length simplex = 2 then
          let b = simplex ! 0;
              ab = b - a;
              dir = cross (cross ab (- a)) ab
          in Inr (False, simplex, dir)
        else if length simplex = 4 then
          let d = simplex ! 0;
              c = simplex ! 1;
              b = simplex ! 2;
              ab = b - a;
              ac = c - a;
              ad = d - a;
              abc = cross ab ac
          in
          if dot abc (- a) > 0 then
            checkTetrahedron (- a) ab ac abc simplex dir
          else
            let acd = cross ac ad in
            if dot acd (- a) > 0 then
              let simplex = simplex[2 := simplex ! 1];
                  simplex = simplex[1 := simplex ! 0]
              in checkTetrahedron (- a) ac ad acd simplex dir
            else
              let adb = cross ad ab in
              if dot adb (- a) > 0 then
                let simplex = simplex[1 := simplex ! 2];
                    simplex = simplex[2 := simplex ! 0]
                in checkTetrahedron (- a) ad ab adb simplex dir
              else Inr (True, simplex, dir)
        else Inr (False, simplex, dir))"

section \<open>The driving loop\<close>

text \<open>
  One pass through the body of \<open>while (true)\<close>: either the function returns, or the loop
  goes round with the simplex and direction that \<open>ContainsOrigin\<close> left behind.
\<close>

datatype 'a step = Return "error + bool" | Continue "'a vec3 list" "'a vec3"

definition loop_body ::
    "'a::{plus,minus,uminus,times,zero,ord} OBB \<Rightarrow> 'a OBB \<Rightarrow> 'a vec3 list \<Rightarrow> 'a vec3 \<Rightarrow> 'a step" where
  "loop_body a b simplex dir =
     (let simplex = simplex @ [Support a b dir] in
      if dot (last simplex) dir \<le> 0 then Return (Inr False)
      else
        case ContainsOrigin simplex dir of
          Inl e \<Rightarrow> Return (Inl e)
        | Inr (inside, simplex, dir) \<Rightarrow>
            if inside then Return (Inr True) else Continue simplex dir)"

text \<open>
  The loop has no bound in the source. The first argument counts the passes the model
  may make; \<open>None\<close> says that they did not suffice.
\<close>

fun TestGJK_loop ::
    "nat \<Rightarrow> 'a::{plus,minus,uminus,times,zero,ord} OBB \<Rightarrow> 'a OBB \<Rightarrow> 'a vec3 list \<Rightarrow> 'a vec3 \<Rightarrow>
       (error + bool) option" where
  "TestGJK_loop 0 a b simplex dir = None"
| "TestGJK_loop (Suc n) a b simplex dir =
     (case loop_body a b simplex dir of
        Return r \<Rightarrow> Some r
      | Continue simplex dir \<Rightarrow> TestGJK_loop n a b simplex dir)"

text \<open>The statements of \<open>TestGJK\<close> before the loop: the two seed points.\<close>

definition seed_simplex ::
    "'a::{plus,minus,uminus,times,one,ord} OBB \<Rightarrow> 'a OBB \<Rightarrow> 'a vec3 list \<times> 'a vec3" where
  "seed_simplex a b =
     (let simplex = [];
          dir = vec3 1 1 1;
          simplex = simplex @ [Support a b dir];
          dir = - last simplex;
          simplex = simplex @ [Support a b dir]
      in (simplex, dir))"

definition TestGJK ::
    "nat \<Rightarrow> 'a::{plus,minus,uminus,times,zero,one,ord} OBB \<Rightarrow> 'a OBB \<Rightarrow> (error + bool) option" where
  "TestGJK n a b =
     (case seed_simplex a b of (simplex, dir) \<Rightarrow>
        if dot (last simplex) dir < 0 then Some (Inr False)
        else
          let dir = cross (cross (simplex ! 0 - simplex ! 1) (- (simplex ! 1)))
                          (simplex ! 0 - simplex ! 1)
          in TestGJK_loop n a b simplex dir)"

text \<open>
  The state at the head of the loop once \<open>k\<close> passes have gone round without returning;
  \<open>None\<close> when one of them returned.
\<close>

fun loop_head ::
    "nat \<Rightarrow> 'a::{plus,minus,uminus,times,zero,ord} OBB \<Rightarrow> 'a OBB \<Rightarrow> 'a vec3 list \<Rightarrow> 'a vec3 \<Rightarrow>
       ('a vec3 list \<times> 'a vec3) option" where
  "loop_head 0 a b simplex dir = Some (simplex, dir)"
| "loop_head (Suc k) a b simplex dir =
     (case loop_body a b simplex dir of
        Return r \<Rightarrow> None
      | Continue simplex dir \<Rightarrow> loop_head k a b simplex dir)"

section \<open>The support point as the specification words it\<close>

text \<open>
  \<open>ArgMaxPoint\<close> follows the specification, not the program: the first point of the hull
  whose dot product with \<open>d\<close> no later point exceeds. An empty hull has no such point.
\<close>

fun ArgMaxPoint :: "'a::{plus,times,ord} vec3 list \<Rightarrow> 'a vec3 \<Rightarrow> 'a vec3 option" where
  "ArgMaxPoint [] d = None"
| "ArgMaxPoint (p # ps) d =
     (if list_all (\<lambda>q. \<not> dot q d > dot p d) ps then Some p else ArgMaxPoint ps d)"

text \<open>One step of the running maximum that \<open>getFarthestPointInDirection\<close> keeps.\<close>

definition farther ::
    "'a::{plus,times,ord} vec3 \<Rightarrow> 'a vec3 \<Rightarrow> 'a \<times> 'a vec3 \<Rightarrow> 'a \<times> 'a vec3" where
  "farther dir p s = (if dot p dir > fst s then (dot p dir, p) else s)"

section \<open>Concrete boxes\<close>

text \<open>
  The axis-aligned cube of half-extent 1 about \<open>(cx, cy, cz)\<close>, its corners in the order
  in which the program lists the vertices of its cube model.
\<close>

definition cube :: "int \<Rightarrow> int \<Rightarrow> int \<Rightarrow> int OBB" where
  "cube cx cy cz =
     OBB (vec3 (cx - 1) (cy - 1) (cz + 1)) (vec3 (cx - 1) (cy + 1) (cz + 1))
         (vec3 (cx + 1) (cy + 1) (cz + 1)) (vec3 (cx + 1) (cy - 1) (cz + 1))
         (vec3 (cx + 1) (cy + 1) (cz - 1)) (vec3 (cx + 1) (cy - 1) (cz - 1))
         (vec3 (cx - 1) (cy + 1) (cz - 1)) (vec3 (cx - 1) (cy - 1) (cz - 1))"

text \<open>
  Two rotated boxes with integer corners. The first has centre \<open>(-3, -6, 5)\<close> and edges
  \<open>(12, 4, -6)\<close>, \<open>(4, 6, 12)\<close>, \<open>(-6, 12, -4)\<close>; the second has centre \<open>(7, 8, 2)\<close> and edges
  \<open>(-4, 4, 0)\<close>, \<open>(-6, -6, 12)\<close>, \<open>(-2, -2, -2)\<close>. Each triple of edges is pairwise orthogonal.
\<close>

definition tilted_box1 :: "int OBB" where
  "tilted_box1 =
     OBB (vec3 4 (- 13) (- 2)) (vec3 8 (- 7) 10) (vec3 2 5 6) (vec3 (- 2) (- 1) (- 6))
         (vec3 (- 10) 1 12) (vec3 (- 14) (- 5) 0) (vec3 (- 4) (- 11) 16) (vec3 (- 8) (- 17) 4)"

definition tilted_box2 :: "int OBB" where
  "tilted_box2 =
     OBB (vec3 9 14 (- 3)) (vec3 3 8 9) (vec3 1 6 7) (vec3 7 12 (- 5))
         (vec3 5 2 7) (vec3 11 8 (- 5)) (vec3 7 4 9) (vec3 13 10 (- 3))"

text \<open>
  An axis-aligned box about the origin with half-extents \<open>(2, 3, 5)\<close>, and a box about the
  origin with half-edges \<open>(1, 0, 0)\<close>, \<open>(0, -1, -1)\<close>, \<open>(0, -1, 1)\<close>: a box of half-extents
  1, sqrt 2, sqrt 2 turned by 45 degrees about the x axis.
\<close>

definition wide_box :: "int OBB" where
  "wide_box =
     OBB (vec3 (- 2) (- 3) 5) (vec3 (- 2) 3 5) (vec3 2 3 5) (vec3 2 (- 3) 5)
         (vec3 2 3 (- 5)) (vec3 2 (- 3) (- 5)) (vec3 (- 2) 3 (- 5)) (vec3 (- 2) (- 3) (- 5))"

definition turned_box :: "int OBB" where
  "turned_box =
     OBB (vec3 (- 1) 0 2) (vec3 (- 1) (- 2) 0) (vec3 1 (- 2) 0) (vec3 1 0 2)
         (vec3 1 0 (- 2)) (vec3 1 2 0) (vec3 (- 1) 0 (- 2)) (vec3 (- 1) 2 0)"

section \<open>The case analysis on explicit simplices\<close>

lemma checkTetrahedron_4:
  "checkTetrahedron ao ab ac abc [d, c, b, a] dir =
     (if dot (cross ab abc) ao > 0 then Inr (False, [b, a], cross (cross ab ao) ab)
      else if dot (cross abc ac) ao > 0 then Inr (False, [c, a], cross (cross ac ao) ac)
      else Inr (False, [c, b, a], abc))"
  by (simp add: checkTetrahedron_def Let_def)

lemma ContainsOrigin_3:
  "ContainsOrigin [c, b, a] dir =
     (if dot (cross (b - a) (cross (b - a) (c - a))) (- a) > 0
      then Inr (False, [b, a], cross (cross (b - a) (- a)) (b - a))
      else if dot (cross (cross (b - a) (c - a)) (c - a)) (- a) > 0
      then Inr (False, [c, a], cross (cross (c - a) (- a)) (c - a))
      else if dot (cross (b - a) (c - a)) (- a) > 0
      then Inr (False, [c, b, a], cross (b - a) (c - a))
      else Inr (False, [b, c, a], - cross (b - a) (c - a)))"
  by (simp add: ContainsOrigin_def Let_def)

lemma ContainsOrigin_4:
  "ContainsOrigin [d, c, b, a] dir =
     (if dot (cross (b - a) (c - a)) (- a) > 0
      then checkTetrahedron (- a) (b - a) (c - a) (cross (b - a) (c - a)) [d, c, b, a] dir
      else if dot (cross (c - a) (d - a)) (- a) > 0
      then checkTetrahedron (- a) (c - a) (d - a) (cross (c - a) (d - a)) [d, d, c, a] dir
      else if dot (cross (d - a) (b - a)) (- a) > 0
      then checkTetrahedron (- a) (d - a) (b - a) (cross (d - a) (b - a)) [d, b, d, a] dir
      else Inr (True, [d, c, b, a], dir))"
  by (simp add: ContainsOrigin_def Let_def)

lemma length_3_4_cases:
  assumes "length s = 3 \<or> length s = 4"
  obtains c b a where "s = [c, b, a]" | d c b a where "s = [d, c, b, a]"
proof -
  from assms consider "length s = Suc (Suc (Suc 0))" | "length s = Suc (Suc (Suc (Suc 0)))"
    by (auto simp: eval_nat_numeral)
  then show ?thesis
    by cases (auto simp: length_Suc_conv intro: that)
qed

lemma ContainsOrigin_sizes:
  assumes "length s = 3 \<or> length s = 4"
  shows "\<exists>r s' d'. ContainsOrigin s d = Inr (r, s', d') \<and> length s' \<le> 4 \<and>
           (\<not> r \<longrightarrow> length s' = 2 \<or> length s' = 3)"
  using assms
proof (cases s rule: length_3_4_cases)
  case (1 c b a)
  show ?thesis unfolding 1 ContainsOrigin_3 by auto
next
  case (2 d c b a)
  show ?thesis unfolding 2 ContainsOrigin_4 checkTetrahedron_4 by auto
qed

text \<open>
  C1. On a 4-point simplex \<open>[d, c, b, a]\<close>, when none of the three face tests
  \<open>dot (ab \<times> ac) (-a) > 0\<close>, \<open>dot (ac \<times> ad) (-a) > 0\<close>, \<open>dot (ad \<times> ab) (-a) > 0\<close> holds,
  \<open>ContainsOrigin\<close> returns true and leaves simplex and direction as they were. A dot
  product of exactly zero fails the test \<open>> 0\<close>, so an origin on a face counts as enclosed.
\<close>

theorem ContainsOrigin_tetrahedron_enclosed:
  assumes "\<not> dot (cross (b - a) (c - a)) (- a) > 0"
    and "\<not> dot (cross (c - a) (d - a)) (- a) > 0"
    and "\<not> dot (cross (d - a) (b - a)) (- a) > 0"
  shows "ContainsOrigin [d, c, b, a] dir = Inr (True, [d, c, b, a], dir)"
  using assms by (simp add: ContainsOrigin_def Let_def)

text \<open>
  The tetrahedron \<open>d = (-1,-1,-1)\<close>, \<open>c = (-1,-1,0)\<close>, \<open>b = (-1,1,0)\<close>, \<open>a = (1,0,0)\<close> has the
  origin on its face \<open>abc\<close>: the first dot product is exactly zero, and the origin is
  reported as contained.
\<close>

theorem ContainsOrigin_tetrahedron_enclosed_witness:
  "dot (cross (vec3 (- 1) 1 0 - vec3 1 0 0) (vec3 (- 1) (- 1) 0 - vec3 1 0 0)) (- vec3 1 0 0) = (0::int) \<and>
   ContainsOrigin [vec3 (- 1) (- 1) (- 1), vec3 (- 1) (- 1) 0, vec3 (- 1) 1 0, vec3 1 0 (0::int)]
       (vec3 0 0 1)
     = Inr (True, [vec3 (- 1) (- 1) (- 1), vec3 (- 1) (- 1) 0, vec3 (- 1) 1 0, vec3 1 0 0],
            vec3 0 0 1)"
  using ContainsOrigin_tetrahedron_enclosed
    [of "vec3 (- 1) 1 0" "vec3 1 0 (0::int)" "vec3 (- 1) (- 1) 0" "vec3 (- 1) (- 1) (- 1)"
        "vec3 0 0 1"]
  by (simp add: minus_vec3_def uminus_vec3_def)

text \<open>
  C3, as stated, fails: \<open>checkTetrahedron\<close> does not always remove exactly one point. On
  the simplex below the 4-point case of \<open>ContainsOrigin\<close> finds the origin in front of face
  \<open>abc\<close> and calls \<open>checkTetrahedron\<close>, which finds it outside edge \<open>ab\<close> and erases two
  points, \<open>d\<close> and \<open>c\<close>: four points go in, two come out.
\<close>

theorem checkTetrahedron_drops_two_points:
  "ContainsOrigin
       [vec3 (- 1) (- 1) (- 1), vec3 (- 1) (- 1) 0, vec3 (- 1) 0 (- 1), vec3 0 (- 1) (0::int)]
       (vec3 1 1 1)
     = checkTetrahedron (vec3 0 1 0) (vec3 (- 1) 1 (- 1)) (vec3 (- 1) 0 0) (vec3 0 1 1)
         [vec3 (- 1) (- 1) (- 1), vec3 (- 1) (- 1) 0, vec3 (- 1) 0 (- 1), vec3 0 (- 1) 0]
         (vec3 1 1 1) \<and>
   checkTetrahedron (vec3 0 1 0) (vec3 (- 1) 1 (- 1)) (vec3 (- 1) 0 0) (vec3 0 1 1)
       [vec3 (- 1) (- 1) (- 1), vec3 (- 1) (- 1) 0, vec3 (- 1) 0 (- 1), vec3 0 (- 1) (0::int)]
       (vec3 1 1 1)
     = Inr (False, [vec3 (- 1) 0 (- 1), vec3 0 (- 1) 0], vec3 1 2 1)"
  by (simp add: ContainsOrigin_def checkTetrahedron_def Let_def minus_vec3_def uminus_vec3_def)

text \<open>
  C3, amended. The 4-point case of \<open>ContainsOrigin\<close> either reports containment or calls
  \<open>checkTetrahedron\<close> on a simplex of four points (relabelled for the faces \<open>acd\<close> and
  \<open>adb\<close>). Every such call returns false and leaves either two points, with the direction
  \<open>(ab \<times> ao) \<times> ab\<close> or \<open>(ac \<times> ao) \<times> ac\<close> of the edge the origin is outside of (two
  points removed), or three points with the face normal \<open>abc\<close> as direction (one point
  removed).
\<close>

theorem checkTetrahedron_reduction:
  "ContainsOrigin [d, c, b, a] dir =
     (if dot (cross (b - a) (c - a)) (- a) > 0
      then checkTetrahedron (- a) (b - a) (c - a) (cross (b - a) (c - a)) [d, c, b, a] dir
      else if dot (cross (c - a) (d - a)) (- a) > 0
      then checkTetrahedron (- a) (c - a) (d - a) (cross (c - a) (d - a)) [d, d, c, a] dir
      else if dot (cross (d - a) (b - a)) (- a) > 0
      then checkTetrahedron (- a) (d - a) (b - a) (cross (d - a) (b - a)) [d, b, d, a] dir
      else Inr (True, [d, c, b, a], dir)) \<and>
   checkTetrahedron ao ab' ac' abc [s0, s1, s2, s3] dir =
     (if dot (cross ab' abc) ao > 0 then Inr (False, [s2, s3], cross (cross ab' ao) ab')
      else if dot (cross abc ac') ao > 0 then Inr (False, [s1, s3], cross (cross ac' ao) ac')
      else Inr (False, [s1, s2, s3], abc))"
  by (simp add: ContainsOrigin_def checkTetrahedron_def Let_def)

text \<open>
  C5. On a 3-point simplex \<open>[c, b, a]\<close> with \<open>ab = b - a\<close>, \<open>ac = c - a\<close>, \<open>abc = ab \<times> ac\<close>:
  if \<open>(ab \<times> abc) \<cdot> (-a) > 0\<close> the simplex becomes \<open>[b, a]\<close> with direction
  \<open>(ab \<times> (-a)) \<times> ab\<close>; else if \<open>(abc \<times> ac) \<cdot> (-a) > 0\<close> it becomes \<open>[c, a]\<close> with direction
  \<open>(ac \<times> (-a)) \<times> ac\<close>; else it keeps three points, \<open>[c, b, a]\<close> with direction \<open>abc\<close> when
  \<open>abc \<cdot> (-a) > 0\<close> and \<open>[b, c, a]\<close> with direction \<open>-abc\<close> otherwise. Every branch returns
  false.
\<close>

theorem ContainsOrigin_triangle:
  "ContainsOrigin [c, b, a] dir =
     (let ab = b - a; ac = c - a; abc = cross ab ac in
      if dot (cross ab abc) (- a) > 0 then Inr (False, [b, a], cross (cross ab (- a)) ab)
      else if dot (cross abc ac) (- a) > 0 then Inr (False, [c, a], cross (cross ac (- a)) ac)
      else if dot abc (- a) > 0 then Inr (False, [c, b, a], abc)
      else Inr (False, [b, c, a], - abc))"
  by (simp add: ContainsOrigin_def Let_def)

text \<open>
  C10, as stated, fails at size 0: \<open>ContainsOrigin\<close> reads \<open>simplex.back()\<close> before it
  looks at the size, and on an empty vector that read is undefined behaviour.
\<close>

theorem ContainsOrigin_empty_simplex:
  "ContainsOrigin [] (vec3 1 1 (1::int)) = Inl UndefinedBehaviour"
  by (simp add: ContainsOrigin_def)

text \<open>
  C10, amended. On every non-empty simplex whose size is not 2, 3 or 4 (size 1, or 5 and
  above) \<open>ContainsOrigin\<close> returns false and changes neither the simplex nor the direction.
\<close>

theorem ContainsOrigin_other_sizes:
  assumes "simplex \<noteq> []"
    and "length simplex \<noteq> 2" and "length simplex \<noteq> 3" and "length simplex \<noteq> 4"
  shows "ContainsOrigin simplex dir = Inr (False, simplex, dir)"
  using assms by (simp add: ContainsOrigin_def Let_def)

theorem ContainsOrigin_other_sizes_witness:
  "ContainsOrigin [vec3 1 2 (3::int)] (vec3 1 1 1) = Inr (False, [vec3 1 2 3], vec3 1 1 1) \<and>
   ContainsOrigin [vec3 1 0 0, vec3 0 1 0, vec3 0 0 1, vec3 1 1 0, vec3 0 1 (1::int)] (vec3 1 1 1)
     = Inr (False, [vec3 1 0 0, vec3 0 1 0, vec3 0 0 1, vec3 1 1 0, vec3 0 1 1], vec3 1 1 1)"
  using ContainsOrigin_other_sizes [of "[vec3 1 2 (3::int)]" "vec3 1 1 1"]
    ContainsOrigin_other_sizes
      [of "[vec3 1 0 0, vec3 0 1 0, vec3 0 0 1, vec3 1 1 0, vec3 0 1 (1::int)]" "vec3 1 1 1"]
  by simp

section \<open>The support function\<close>

lemma upt_1_8: "[1..<8] = [1, 2, 3, 4, 5, 6, 7::nat]"
  by code_simp

lemma getFarthestPointInDirection_fold:
  "getFarthestPointInDirection (OBB c0 c1 c2 c3 c4 c5 c6 c7) dir =
     snd (fold (farther dir) [c1, c2, c3, c4, c5, c6, c7] (dot c0 dir, c0))"
proof -
  let ?cs = "[c0, c1, c2, c3, c4, c5, c6, c7]"
  have "(\<lambda>i (maxDist, farthestPoint).
           if dot (?cs ! i) dir > maxDist then (dot (?cs ! i) dir, ?cs ! i)
           else (maxDist, farthestPoint))
        = farther dir \<circ> nth ?cs"
    by (rule ext, rule ext) (simp add: farther_def split: prod.splits del: nth_Cons_numeral)
  moreover have "map (nth ?cs) [1..<8] = [c1, c2, c3, c4, c5, c6, c7]"
    by (subst upt_1_8) simp
  ultimately show ?thesis
    by (simp only: getFarthestPointInDirection_def corners.simps fold_map [symmetric] nth_Cons_0)
qed

text \<open>
  A later point that does not exceed the current candidate cannot be the answer either:
  whatever exceeds the candidate exceeds it too. This is where the order has to be linear.
\<close>

lemma ArgMaxPoint_skip:
  fixes d :: "'a::{plus,times,linorder} vec3"
  assumes "\<not> dot q d > dot p d"
  shows "ArgMaxPoint (p # q # qs) d = ArgMaxPoint (p # qs) d"
proof (cases "list_all (\<lambda>r. \<not> dot r d > dot p d) qs")
  case True
  with assms show ?thesis by simp
next
  case False
  then obtain r where r: "r \<in> set qs" "dot r d > dot p d"
    by (auto simp: list_all_iff)
  with assms have "dot r d > dot q d" by simp
  with r have "\<not> list_all (\<lambda>r. \<not> dot r d > dot q d) qs"
    by (auto simp: list_all_iff)
  with False show ?thesis by simp
qed

lemma ArgMaxPoint_fold:
  fixes d :: "'a::{plus,times,linorder} vec3"
  shows "ArgMaxPoint (p # ps) d = Some (snd (fold (farther d) ps (dot p d, p)))"
proof (induction ps arbitrary: p)
  case Nil
  show ?case by simp
next
  case (Cons q qs)
  show ?case
  proof (cases "dot q d > dot p d")
    case True
    then have "ArgMaxPoint (p # q # qs) d = ArgMaxPoint (q # qs) d" by simp
    with True Cons.IH [of q] show ?thesis by (simp add: farther_def)
  next
    case False
    then have "ArgMaxPoint (p # q # qs) d = ArgMaxPoint (p # qs) d" by (rule ArgMaxPoint_skip)
    with False Cons.IH [of p] show ?thesis by (simp add: farther_def)
  qed
qed

lemma getFarthestPointInDirection_ArgMaxPoint:
  fixes dir :: "'a::{plus,times,linorder} vec3"
  shows "ArgMaxPoint (corners obj) dir = Some (getFarthestPointInDirection obj dir)"
proof (cases obj)
  case (OBB c0 c1 c2 c3 c4 c5 c6 c7)
  show ?thesis
    unfolding OBB corners.simps getFarthestPointInDirection_fold by (rule ArgMaxPoint_fold)
qed

text \<open>
  C4. For every pair of boxes and every direction (zero or not), over linearly ordered
  scalars, both hulls have an \<open>ArgMaxPoint\<close> and \<open>Support a b dir\<close> is the difference of
  \<open>ArgMaxPoint\<close> of \<open>a\<close> along \<open>dir\<close> and \<open>ArgMaxPoint\<close> of \<open>b\<close> along \<open>- dir\<close>. \<open>Support\<close>
  takes the boxes by value and only reads \<open>dir\<close>; it neither sees nor returns the simplex,
  which is why it is a function of its three arguments alone.
\<close>

theorem Support_ArgMaxPoint:
  fixes dir :: "'a::{plus,minus,uminus,times,linorder} vec3"
  shows "\<exists>p1 p2. ArgMaxPoint (corners a) dir = Some p1 \<and>
                 ArgMaxPoint (corners b) (- dir) = Some p2 \<and>
                 Support a b dir = p1 - p2"
  by (simp add: getFarthestPointInDirection_ArgMaxPoint Support_def)

text \<open>
  C8 fails on the program. Every corner of \<open>turned_box\<close> lies strictly inside \<open>wide_box\<close>,
  so the boxes intersect. \<open>TestGJK wide_box turned_box\<close> returns true in its second pass.
  With the arguments swapped the two seed points are \<open>(3, 3, 7)\<close> and \<open>(-3, -3, -7)\<close>, on
  a line through the origin; the direction computed from them before the loop is the
  zero vector, the first pass pushes a point whose dot product with it is zero, and the
  call returns false.
\<close>

theorem TestGJK_swap_changes_verdict:
  "list_all (\<lambda>p. - 2 < dot p (vec3 1 0 0) \<and> dot p (vec3 1 0 0) < 2 \<and>
                  - 3 < dot p (vec3 0 1 0) \<and> dot p (vec3 0 1 0) < 3 \<and>
                  - 5 < dot p (vec3 0 0 1) \<and> dot p (vec3 0 0 1) < 5) (corners turned_box) \<and>
   TestGJK 2 wide_box turned_box = Some (Inr True) \<and>
   seed_simplex turned_box wide_box = ([vec3 3 3 7, vec3 (- 3) (- 3) (- 7)], vec3 (- 3) (- 3) (- 7)) \<and>
   cross (cross (vec3 3 3 7 - vec3 (- 3) (- 3) (- 7)) (- vec3 (- 3) (- 3) (- 7)))
         (vec3 3 3 7 - vec3 (- 3) (- 3) (- 7)) = vec3 0 0 (0::int) \<and>
   TestGJK 1 turned_box wide_box = Some (Inr False)"
  by code_simp

section \<open>The loop, pass by pass\<close>

lemma TestGJK_unfold:
  "TestGJK n a b =
     (if dot (Support a b (- Support a b (vec3 1 1 1))) (- Support a b (vec3 1 1 1)) < 0
      then Some (Inr False)
      else TestGJK_loop n a b
             [Support a b (vec3 1 1 1), Support a b (- Support a b (vec3 1 1 1))]
             (cross (cross (Support a b (vec3 1 1 1) - Support a b (- Support a b (vec3 1 1 1)))
                           (- Support a b (- Support a b (vec3 1 1 1))))
                    (Support a b (vec3 1 1 1) - Support a b (- Support a b (vec3 1 1 1)))))"
  by (simp add: TestGJK_def seed_simplex_def Let_def)

text \<open>
  What one pass does to a simplex of two or three points: it returns false on the
  progress test, or returns true on containment, or goes round with two or three points.
\<close>

lemma loop_body_cases:
  assumes "length s = 2 \<or> length s = 3"
  shows "(loop_body a b s d = Return (Inr False) \<and> dot (Support a b d) d \<le> 0) \<or>
         (\<not> dot (Support a b d) d \<le> 0 \<and>
            ((\<exists>s' d'. loop_body a b s d = Return (Inr True) \<and>
                 ContainsOrigin (s @ [Support a b d]) d = Inr (True, s', d')) \<or>
             (\<exists>s' d'. loop_body a b s d = Continue s' d' \<and>
                 ContainsOrigin (s @ [Support a b d]) d = Inr (False, s', d') \<and>
                 (length s' = 2 \<or> length s' = 3))))"
proof (cases "dot (Support a b d) d \<le> 0")
  case True
  then show ?thesis by (simp add: loop_body_def)
next
  case False
  from assms have "length (s @ [Support a b d]) = 3 \<or> length (s @ [Support a b d]) = 4"
    by auto
  from ContainsOrigin_sizes [OF this, of d]
  obtain r s' d' where co: "ContainsOrigin (s @ [Support a b d]) d = Inr (r, s', d')"
    and sz: "\<not> r \<longrightarrow> length s' = 2 \<or> length s' = 3"
    by blast
  show ?thesis
  proof (cases r)
    case True
    with False co show ?thesis by (simp add: loop_body_def)
  next
    case r: False
    with False co sz show ?thesis by (simp add: loop_body_def)
  qed
qed

lemma loop_body_False_iff:
  assumes "length s = 2 \<or> length s = 3"
  shows "loop_body a b s d = Return (Inr False) \<longleftrightarrow> dot (Support a b d) d \<le> 0"
  using loop_body_cases [OF assms, of a b d] by auto

lemma loop_body_True_iff:
  assumes "length s = 2 \<or> length s = 3"
  shows "loop_body a b s d = Return (Inr True) \<longleftrightarrow>
           \<not> dot (Support a b d) d \<le> 0 \<and>
           (\<exists>s' d'. ContainsOrigin (s @ [Support a b d]) d = Inr (True, s', d'))"
  using loop_body_cases [OF assms, of a b d] by auto

lemma loop_body_no_error:
  assumes "length s = 2 \<or> length s = 3"
  shows "loop_body a b s d \<noteq> Return (Inl e)"
  using loop_body_cases [OF assms, of a b d] by auto

lemma loop_head_sizes:
  assumes "loop_head k a b s d = Some (s', d')" and "length s = 2 \<or> length s = 3"
  shows "length s' = 2 \<or> length s' = 3"
  using assms
proof (induction k arbitrary: s d)
  case 0
  then show ?case by simp
next
  case (Suc k)
  from Suc.prems(1) obtain s1 d1 where
    body: "loop_body a b s d = Continue s1 d1" and rest: "loop_head k a b s1 d1 = Some (s', d')"
    by (auto split: step.splits)
  from loop_body_cases [OF Suc.prems(2), of a b d] body
  have "length s1 = 2 \<or> length s1 = 3" by auto
  with rest show ?case by (rule Suc.IH)
qed

text \<open>The loop returns \<open>r\<close> within \<open>n\<close> passes iff one of the first \<open>n\<close> passes returns \<open>r\<close>.\<close>

lemma TestGJK_loop_Some_iff:
  "TestGJK_loop n a b s d = Some r \<longleftrightarrow>
     (\<exists>k<n. \<exists>s' d'. loop_head k a b s d = Some (s', d') \<and> loop_body a b s' d' = Return r)"
proof (induction n arbitrary: s d)
  case 0
  show ?case by simp
next
  case (Suc n)
  show ?case
  proof (cases "loop_body a b s d")
    case (Return r0)
    then show ?thesis by (auto simp: Ex_less_Suc2)
  next
    case (Continue s1 d1)
    then show ?thesis by (simp add: Ex_less_Suc2 Suc.IH)
  qed
qed

lemma TestGJK_loop_False_iff:
  assumes "length s = 2 \<or> length s = 3"
  shows "TestGJK_loop n a b s d = Some (Inr False) \<longleftrightarrow>
           (\<exists>k<n. \<exists>s' d'. loop_head k a b s d = Some (s', d') \<and> dot (Support a b d') d' \<le> 0)"
  unfolding TestGJK_loop_Some_iff
  using loop_head_sizes [OF _ assms] loop_body_False_iff by blast

lemma TestGJK_loop_True_iff:
  assumes "length s = 2 \<or> length s = 3"
  shows "TestGJK_loop n a b s d = Some (Inr True) \<longleftrightarrow>
           (\<exists>k<n. \<exists>s' d'. loop_head k a b s d = Some (s', d') \<and>
              \<not> dot (Support a b d') d' \<le> 0 \<and>
              (\<exists>s'' d''. ContainsOrigin (s' @ [Support a b d']) d' = Inr (True, s'', d'')))"
  unfolding TestGJK_loop_Some_iff
  using loop_head_sizes [OF _ assms] loop_body_True_iff by blast

lemma TestGJK_loop_no_error:
  assumes "length s = 2 \<or> length s = 3"
  shows "TestGJK_loop n a b s d \<noteq> Some (Inl e)"
  unfolding TestGJK_loop_Some_iff
  using loop_head_sizes [OF _ assms] loop_body_no_error by blast

lemma ex_bounded_nat: "(\<exists>n. \<exists>k<n. P k) \<longleftrightarrow> (\<exists>k::nat. P k)"
  by (auto intro: lessI)

text \<open>
  C2. Write \<open>p1\<close> for the first support point, \<open>p2\<close> for the second (along \<open>- p1\<close>) and
  \<open>dir1\<close> for the direction with which the loop starts. \<open>TestGJK\<close> returns false exactly
  when \<open>dot p2 (- p1) < 0\<close> (strict), or some pass of the loop pushes a support point with
  \<open>dot newest dir \<le> 0\<close> (non-strict). It returns true exactly when the first test does
  not fire and some pass, whose new point passes the progress test, has \<open>ContainsOrigin\<close>
  report containment. It returns nothing else: no call ends in undefined behaviour.
\<close>

theorem TestGJK_exits:
  "let p1 = Support a b (vec3 1 1 1);
       p2 = Support a b (- p1);
       dir1 = cross (cross (p1 - p2) (- p2)) (p1 - p2);
       early = dot p2 (- p1) < 0
   in
     ((\<exists>n. TestGJK n a b = Some (Inr False)) \<longleftrightarrow>
        early \<or>
        (\<exists>k simplex dir. loop_head k a b [p1, p2] dir1 = Some (simplex, dir) \<and>
           dot (Support a b dir) dir \<le> 0)) \<and>
     ((\<exists>n. TestGJK n a b = Some (Inr True)) \<longleftrightarrow>
        \<not> early \<and>
        (\<exists>k simplex dir simplex' dir'.
           loop_head k a b [p1, p2] dir1 = Some (simplex, dir) \<and>
           \<not> dot (Support a b dir) dir \<le> 0 \<and>
           ContainsOrigin (simplex @ [Support a b dir]) dir = Inr (True, simplex', dir'))) \<and>
     (\<forall>n e. TestGJK n a b \<noteq> Some (Inl e))"
proof -
  define p1 where "p1 = Support a b (vec3 1 1 1)"
  define p2 where "p2 = Support a b (- p1)"
  define dir1 where "dir1 = cross (cross (p1 - p2) (- p2)) (p1 - p2)"
  have two: "length [p1, p2] = 2 \<or> length [p1, p2] = 3" by simp
  have unfold: "TestGJK n a b =
      (if dot p2 (- p1) < 0 then Some (Inr False) else TestGJK_loop n a b [p1, p2] dir1)" for n
    unfolding p1_def p2_def dir1_def by (rule TestGJK_unfold)
  have f: "(\<exists>n. TestGJK n a b = Some (Inr False)) \<longleftrightarrow>
        dot p2 (- p1) < 0 \<or>
        (\<exists>k simplex dir. loop_head k a b [p1, p2] dir1 = Some (simplex, dir) \<and>
           dot (Support a b dir) dir \<le> 0)"
  proof (cases "dot p2 (- p1) < 0")
    case True
    then show ?thesis by (simp add: unfold)
  next
    case False
    then show ?thesis
      by (simp add: unfold TestGJK_loop_False_iff [OF two] ex_bounded_nat)
  qed
  have t: "(\<exists>n. TestGJK n a b = Some (Inr True)) \<longleftrightarrow>
        \<not> dot p2 (- p1) < 0 \<and>
        (\<exists>k simplex dir simplex' dir'.
           loop_head k a b [p1, p2] dir1 = Some (simplex, dir) \<and>
           \<not> dot (Support a b dir) dir \<le> 0 \<and>
           ContainsOrigin (simplex @ [Support a b dir]) dir = Inr (True, simplex', dir'))"
  proof (cases "dot p2 (- p1) < 0")
    case True
    then show ?thesis by (simp add: unfold)
  next
    case False
    then show ?thesis
      by (simp add: unfold TestGJK_loop_True_iff [OF two] ex_bounded_nat)
  qed
  have e: "TestGJK n a b \<noteq> Some (Inl e)" for n e
    by (simp add: unfold TestGJK_loop_no_error [OF two])
  from f t e show ?thesis
    unfolding Let_def p1_def p2_def dir1_def by blast
qed

text \<open>
  Three calls on cubes of half-extent 1, one for each way out. Centres \<open>(0,0,0)\<close> and
  \<open>(10,0,0)\<close>: the test after the second point fires. Centres \<open>(0,0,0)\<close> and \<open>(2,0,0)\<close>: the
  first pass pushes a point with dot product 0 and returns false. Centres \<open>(0,0,0)\<close> and
  \<open>(1,0,0)\<close>: the second pass finds the origin enclosed.
\<close>

theorem TestGJK_exits_witness:
  "(\<exists>n. TestGJK n (cube 0 0 0) (cube 10 0 0) = Some (Inr False)) \<and>
   (\<exists>n. TestGJK n (cube 0 0 0) (cube 2 0 0) = Some (Inr False)) \<and>
   (\<exists>n. TestGJK n (cube 0 0 0) (cube 1 0 0) = Some (Inr True))"
proof -
  have sep: "Support (cube 0 0 0) (cube 10 0 0) (vec3 1 1 1) = vec3 (- 8) 2 2"
    "Support (cube 0 0 0) (cube 10 0 0) (vec3 8 (- 2) (- 2)) = vec3 (- 8) (- 2) (- 2)"
    by code_simp+
  have touch: "Support (cube 0 0 0) (cube 2 0 0) (vec3 1 1 1) = vec3 0 2 2"
    "Support (cube 0 0 0) (cube 2 0 0) (vec3 0 (- 2) (- 2)) = vec3 0 (- 2) (- 2)"
    by code_simp+
  have over: "Support (cube 0 0 0) (cube 1 0 0) (vec3 1 1 1) = vec3 1 2 2"
    "Support (cube 0 0 0) (cube 1 0 0) (vec3 (- 1) (- 2) (- 2)) = vec3 (- 3) (- 2) (- 2)"
    by code_simp+
  have "\<exists>n. TestGJK n (cube 0 0 0) (cube 10 0 0) = Some (Inr False)"
    using TestGJK_exits [of "cube 0 0 0" "cube 10 0 0"]
    by (simp add: Let_def sep uminus_vec3_def)
  moreover have "\<exists>n. TestGJK n (cube 0 0 0) (cube 2 0 0) = Some (Inr False)"
  proof -
    have "loop_head 0 (cube 0 0 0) (cube 2 0 0) [vec3 0 2 2, vec3 0 (- 2) (- 2)] (vec3 0 0 0)
            = Some ([vec3 0 2 2, vec3 0 (- 2) (- 2)], vec3 0 0 0) \<and>
          dot (Support (cube 0 0 0) (cube 2 0 0) (vec3 0 0 0)) (vec3 0 0 0) \<le> 0"
      by code_simp
    then have "\<exists>k simplex dir.
        loop_head k (cube 0 0 0) (cube 2 0 0) [vec3 0 2 2, vec3 0 (- 2) (- 2)] (vec3 0 0 0)
          = Some (simplex, dir) \<and>
        dot (Support (cube 0 0 0) (cube 2 0 0) dir) dir \<le> 0"
      by blast
    with TestGJK_exits [of "cube 0 0 0" "cube 2 0 0"] show ?thesis
      by (simp add: Let_def touch uminus_vec3_def minus_vec3_def)
  qed
  moreover have "\<exists>n. TestGJK n (cube 0 0 0) (cube 1 0 0) = Some (Inr True)"
  proof -
    have "loop_head 1 (cube 0 0 0) (cube 1 0 0) [vec3 1 2 2, vec3 (- 3) (- 2) (- 2)]
              (vec3 32 (- 16) (- 16))
            = Some ([vec3 (- 3) (- 2) (- 2), vec3 1 2 2, vec3 1 (- 2) (- 2)], vec3 0 (- 16) 16) \<and>
          \<not> dot (Support (cube 0 0 0) (cube 1 0 0) (vec3 0 (- 16) 16)) (vec3 0 (- 16) 16) \<le> 0 \<and>
          ContainsOrigin
              ([vec3 (- 3) (- 2) (- 2), vec3 1 2 2, vec3 1 (- 2) (- 2)]
                 @ [Support (cube 0 0 0) (cube 1 0 0) (vec3 0 (- 16) 16)])
              (vec3 0 (- 16) 16)
            = Inr (True, [vec3 (- 3) (- 2) (- 2), vec3 1 2 2, vec3 1 (- 2) (- 2), vec3 (- 3) (- 2) 2],
                   vec3 0 (- 16) 16)"
      by code_simp
    then have "\<exists>k simplex dir simplex' dir'.
        loop_head k (cube 0 0 0) (cube 1 0 0) [vec3 1 2 2, vec3 (- 3) (- 2) (- 2)]
            (vec3 32 (- 16) (- 16)) = Some (simplex, dir) \<and>
        \<not> dot (Support (cube 0 0 0) (cube 1 0 0) dir) dir \<le> 0 \<and>
        ContainsOrigin (simplex @ [Support (cube 0 0 0) (cube 1 0 0) dir]) dir
          = Inr (True, simplex', dir')"
      by blast
    with TestGJK_exits [of "cube 0 0 0" "cube 1 0 0"] show ?thesis
      by (simp add: Let_def over uminus_vec3_def minus_vec3_def)
  qed
  ultimately show ?thesis by blast
qed

text \<open>
  C6. On a 2-point simplex \<open>[b, a]\<close> \<open>ContainsOrigin\<close> returns false, keeps the simplex and
  sets the direction to \<open>(ab \<times> (-a)) \<times> ab\<close> with \<open>ab = b - a\<close>. \<open>TestGJK\<close> computes the same
  vector inline from its two seed points before the loop: the call equals the one in
  which the direction entering the loop is taken from \<open>ContainsOrigin\<close> on the seed
  simplex.
\<close>

theorem ContainsOrigin_line:
  "ContainsOrigin [b, a] dir = Inr (False, [b, a], cross (cross (b - a) (- a)) (b - a)) \<and>
   TestGJK n hullA hullB =
     (case seed_simplex hullA hullB of
        (simplex, dir0) \<Rightarrow>
          if dot (last simplex) dir0 < 0 then Some (Inr False)
          else
            case ContainsOrigin simplex dir0 of
              Inl e \<Rightarrow> Some (Inl e)
            | Inr (inside, simplex', dir1) \<Rightarrow> TestGJK_loop n hullA hullB simplex' dir1)"
  by (simp add: ContainsOrigin_def TestGJK_def seed_simplex_def Let_def)

text \<open>
  C9. The simplex is empty when \<open>TestGJK\<close> starts and holds two points when the loop is
  entered. At the head of every pass it holds two or three points, whatever the direction
  the loop was entered with; the push makes that three or four, which is what
  \<open>ContainsOrigin\<close> is called with; and \<open>ContainsOrigin\<close> never fails there, leaves at most
  four points, and leaves two or three whenever it returns false.
\<close>

theorem simplex_size_invariant:
  assumes "loop_head k a b (fst (seed_simplex a b)) dir1 = Some (simplex, dir)"
  shows "length (fst (seed_simplex a b)) = 2 \<and>
         (length simplex = 2 \<or> length simplex = 3) \<and>
         (length (simplex @ [Support a b dir]) = 3 \<or> length (simplex @ [Support a b dir]) = 4) \<and>
         (\<exists>r simplex' dir'.
            ContainsOrigin (simplex @ [Support a b dir]) dir = Inr (r, simplex', dir') \<and>
            length simplex' \<le> 4 \<and>
            (\<not> r \<longrightarrow> length simplex' = 2 \<or> length simplex' = 3))"
proof -
  have seed: "length (fst (seed_simplex a b)) = 2"
    by (simp add: seed_simplex_def Let_def)
  then have "length (fst (seed_simplex a b)) = 2 \<or> length (fst (seed_simplex a b)) = 3"
    by simp
  with assms have head: "length simplex = 2 \<or> length simplex = 3"
    by (rule loop_head_sizes)
  then have pushed:
    "length (simplex @ [Support a b dir]) = 3 \<or> length (simplex @ [Support a b dir]) = 4"
    by auto
  from seed head pushed ContainsOrigin_sizes [OF pushed, of dir] show ?thesis
    by blast
qed

text \<open>
  Overlapping cubes with centres \<open>(0,0,0)\<close> and \<open>(1,0,0)\<close>: the second pass starts with
  three points and calls \<open>ContainsOrigin\<close> with four.
\<close>

theorem simplex_size_invariant_witness:
  "loop_head 1 (cube 0 0 0) (cube 1 0 0) (fst (seed_simplex (cube 0 0 0) (cube 1 0 0)))
       (vec3 32 (- 16) (- 16))
     = Some ([vec3 (- 3) (- 2) (- 2), vec3 1 2 2, vec3 1 (- 2) (- 2)], vec3 0 (- 16) 16) \<and>
   length (fst (seed_simplex (cube 0 0 0) (cube 1 0 0))) = 2 \<and>
   length ([vec3 (- 3) (- 2) (- 2), vec3 1 2 2, vec3 1 (- 2) (- 2)]
             @ [Support (cube 0 0 0) (cube 1 0 0) (vec3 0 (- 16) 16)]) = 4 \<and>
   (\<exists>r simplex' dir'.
      ContainsOrigin ([vec3 (- 3) (- 2) (- 2), vec3 1 2 2, vec3 1 (- 2) (- 2)]
                        @ [Support (cube 0 0 0) (cube 1 0 0) (vec3 0 (- 16) 16)])
          (vec3 0 (- 16) 16) = Inr (r, simplex', dir') \<and>
      length simplex' \<le> 4)"
proof -
  have head: "loop_head 1 (cube 0 0 0) (cube 1 0 0) (fst (seed_simplex (cube 0 0 0) (cube 1 0 0)))
       (vec3 32 (- 16) (- 16))
     = Some ([vec3 (- 3) (- 2) (- 2), vec3 1 2 2, vec3 1 (- 2) (- 2)], vec3 0 (- 16) 16)"
    by code_simp
  from simplex_size_invariant [OF head] head show ?thesis
    by auto
qed

section \<open>Passes without end\<close>

lemma TestGJK_loop_add:
  assumes "loop_head k a b s d = Some (s', d')"
  shows "TestGJK_loop (k + m) a b s d = TestGJK_loop m a b s' d'"
  using assms
proof (induction k arbitrary: s d)
  case 0
  then show ?case by simp
next
  case (Suc k)
  from Suc.prems obtain s1 d1 where
    body: "loop_body a b s d = Continue s1 d1" and rest: "loop_head k a b s1 d1 = Some (s', d')"
    by (auto split: step.splits)
  from Suc.IH [OF rest] body show ?case by simp
qed

lemma loop_head_add:
  assumes "loop_head k a b s d = Some (s', d')"
  shows "loop_head (k + m) a b s d = loop_head m a b s' d'"
  using assms
proof (induction k arbitrary: s d)
  case 0
  then show ?case by simp
next
  case (Suc k)
  from Suc.prems obtain s1 d1 where
    body: "loop_body a b s d = Continue s1 d1" and rest: "loop_head k a b s1 d1 = Some (s', d')"
    by (auto split: step.splits)
  from Suc.IH [OF rest] body show ?case by simp
qed

text \<open>A loop that is still running after \<open>k\<close> passes has not returned in fewer.\<close>

lemma TestGJK_loop_running:
  assumes "loop_head k a b s d = Some (s', d')" and "n \<le> k"
  shows "TestGJK_loop n a b s d = None"
  using assms
proof (induction n arbitrary: k s d)
  case 0
  show ?case by simp
next
  case (Suc n)
  from Suc.prems(2) obtain j where k: "k = Suc j" and j: "n \<le> j"
    by (cases k) auto
  from Suc.prems(1) [unfolded k] obtain s1 d1 where
    body: "loop_body a b s d = Continue s1 d1" and rest: "loop_head j a b s1 d1 = Some (s', d')"
    by (auto split: step.splits)
  from Suc.IH [OF rest j] body show ?case by simp
qed

text \<open>A state of the loop that comes back after \<open>p > 0\<close> passes is never left.\<close>

lemma TestGJK_loop_cycle:
  assumes cyc: "loop_head p a b s d = Some (s, d)" and p: "0 < p"
  shows "TestGJK_loop n a b s d = None"
proof (induction n rule: less_induct)
  case (less n)
  show ?case
  proof (cases "n \<le> p")
    case True
    with cyc show ?thesis by (rule TestGJK_loop_running)
  next
    case False
    then have n: "n = p + (n - p)" and "n - p < n" using p by auto
    from less.IH [OF \<open>n - p < n\<close>] TestGJK_loop_add [OF cyc, of "n - p"] n
    show ?thesis by simp
  qed
qed

lemma TestGJK_loop_into_cycle:
  assumes reach: "loop_head k a b s d = Some (s', d')"
    and cyc: "loop_head p a b s' d' = Some (s', d')" and p: "0 < p"
  shows "TestGJK_loop n a b s d = None"
proof (cases "n \<le> k")
  case True
  with reach show ?thesis by (rule TestGJK_loop_running)
next
  case False
  then have "n = k + (n - k)" by simp
  with TestGJK_loop_add [OF reach, of "n - k"] TestGJK_loop_cycle [OF cyc p, of "n - k"]
  show ?thesis by simp
qed

text \<open>
  The run on the two tilted boxes: the state at the head of the seventh pass is the state
  at the head of the eleventh.
\<close>

lemma tilted_boxes_seed:
  "Support tilted_box1 tilted_box2 (vec3 1 1 1) = vec3 1 (- 1) (- 1)"
  "Support tilted_box1 tilted_box2 (vec3 (- 1) 1 1) = vec3 (- 21) (- 7) 17"
  by code_simp+

lemma tilted_boxes_reach:
  "loop_head 6 tilted_box1 tilted_box2 [vec3 1 (- 1) (- 1), vec3 (- 21) (- 7) 17]
       (vec3 (- 96) 1048 232)
     = Some ([vec3 (- 3) 3 (- 1), vec3 1 (- 1) (- 1), vec3 1 (- 19) 15], vec3 64 64 72)"
  by code_simp

lemma tilted_boxes_cycle:
  "loop_head 4 tilted_box1 tilted_box2 [vec3 (- 3) 3 (- 1), vec3 1 (- 1) (- 1), vec3 1 (- 19) 15]
       (vec3 64 64 72)
     = Some ([vec3 (- 3) 3 (- 1), vec3 1 (- 1) (- 1), vec3 1 (- 19) 15], vec3 64 64 72)"
  by code_simp

lemma tilted_boxes_never_return: "TestGJK n tilted_box1 tilted_box2 = None"
proof -
  have "TestGJK n tilted_box1 tilted_box2 =
          TestGJK_loop n tilted_box1 tilted_box2 [vec3 1 (- 1) (- 1), vec3 (- 21) (- 7) 17]
            (vec3 (- 96) 1048 232)"
    by (simp add: TestGJK_unfold tilted_boxes_seed uminus_vec3_def minus_vec3_def)
  also have "\<dots> = None"
    using tilted_boxes_reach tilted_boxes_cycle by (rule TestGJK_loop_into_cycle) simp
  finally show ?thesis .
qed

text \<open>
  C7 fails on the program. Every corner of the first tilted box has \<open>x + y + z \<le> 13\<close> and
  every corner of the second has \<open>x + y + z \<ge> 14\<close>, so the boxes are disjoint and the
  answer is false; called with the boxes swapped, \<open>TestGJK\<close> gives that answer in its
  eighth pass. Called in this order it gives no answer: twenty passes do not bring it to
  a return, and no number of passes does.
\<close>

theorem TestGJK_tilted_boxes_hang:
  "list_all (\<lambda>p. dot p (vec3 1 1 1) \<le> 13) (corners tilted_box1) \<and>
   list_all (\<lambda>p. dot p (vec3 1 1 1) \<ge> 14) (corners tilted_box2) \<and>
   TestGJK 8 tilted_box2 tilted_box1 = Some (Inr False) \<and>
   TestGJK 20 tilted_box1 tilted_box2 = None \<and>
   (\<forall>n. TestGJK n tilted_box1 tilted_box2 = None)"
proof -
  have "list_all (\<lambda>p. dot p (vec3 1 1 1) \<le> 13) (corners tilted_box1) \<and>
        list_all (\<lambda>p. dot p (vec3 1 1 1) \<ge> 14) (corners tilted_box2) \<and>
        TestGJK 8 tilted_box2 tilted_box1 = Some (Inr False)"
    by code_simp
  with tilted_boxes_never_return show ?thesis by blast
qed

section \<open>Further properties of the driving loop\<close>

text \<open>
  The pass counter is a device of the model only. Once a call returns with some number of
  passes allowed, it returns the same verdict with any larger number.
\<close>

theorem TestGJK_verdict_stable:
  assumes "TestGJK n a b = Some r" and "n \<le> m"
  shows "TestGJK m a b = Some r"
proof (cases "dot (Support a b (- Support a b (vec3 1 1 1))) (- Support a b (vec3 1 1 1)) < 0")
  case True
  with assms(1) show ?thesis by (simp add: TestGJK_unfold)
next
  case False
  with assms(1) obtain k where "k < n" and
    "\<exists>s' d'. loop_head k a b
        [Support a b (vec3 1 1 1), Support a b (- Support a b (vec3 1 1 1))]
        (cross (cross (Support a b (vec3 1 1 1) - Support a b (- Support a b (vec3 1 1 1)))
                      (- Support a b (- Support a b (vec3 1 1 1))))
               (Support a b (vec3 1 1 1) - Support a b (- Support a b (vec3 1 1 1))))
        = Some (s', d') \<and> loop_body a b s' d' = Return r"
    by (auto simp: TestGJK_unfold TestGJK_loop_Some_iff)
  moreover from \<open>k < n\<close> assms(2) have "k < m" by simp
  ultimately show ?thesis
    using False by (auto simp: TestGJK_unfold TestGJK_loop_Some_iff)
qed

theorem TestGJK_verdict_stable_witness:
  "TestGJK 2 (cube 0 0 0) (cube 1 0 0) = Some (Inr True) \<and>
   TestGJK 7 (cube 0 0 0) (cube 1 0 0) = Some (Inr True)"
proof -
  have two: "TestGJK 2 (cube 0 0 0) (cube 1 0 0) = Some (Inr True)"
    by code_simp
  from TestGJK_verdict_stable [OF two, of 7] two show ?thesis
    by simp
qed

text \<open>
  Two cubes of half-extent 1 with centres \<open>(0,0,0)\<close> and \<open>(10,0,0)\<close>: the call returns false
  at the test after the second support point, before the loop.
\<close>

theorem TestGJK_separated_cubes:
  "TestGJK 0 (cube 0 0 0) (cube 10 0 0) = Some (Inr False)"
  by code_simp

text \<open>
  Two identical cubes about the origin: the seed points \<open>(2,2,2)\<close> and \<open>(-2,-2,-2)\<close> lie on
  a line through the origin, the direction computed from them is the zero vector, the
  first pass pushes a point whose dot product with it is zero, and the call returns false.
\<close>

theorem TestGJK_identical_cubes:
  "seed_simplex (cube 0 0 0) (cube 0 0 0) = ([vec3 2 2 2, vec3 (- 2) (- 2) (- 2)], vec3 (- 2) (- 2) (- 2)) \<and>
   cross (cross (vec3 2 2 2 - vec3 (- 2) (- 2) (- 2)) (- vec3 (- 2) (- 2) (- 2)))
         (vec3 2 2 2 - vec3 (- 2) (- 2) (- 2)) = vec3 0 0 (0::int) \<and>
   TestGJK 1 (cube 0 0 0) (cube 0 0 0) = Some (Inr False)"
  by code_simp


end
